theory Spec2Isabelle
  imports Complex_Main
begin

section \<open>Kernel ridge estimators of \<^verbatim>\<open>models.py\<close>\<close>

text \<open>
  The three estimator classes of \<^verbatim>\<open>models.py\<close> are embedded as functions on
  explicit estimator states. Attribute assignments to \<^verbatim>\<open>self\<close> become record
  updates, and every call that can raise becomes a branch returning the error together
  with the state as it stands at that point (Python keeps the assignments made before an
  exception). numpy floats are read as real numbers. Printing, timing and progress bars
  are left out.
\<close>

subsection \<open>Errors and numeric containers\<close>

datatype error =
    KeyError string
  | ValueError
  | IndexError
  | AttributeError
  | TypeError
  | LinAlgError

type_synonym vec = "real list"
type_synonym mat = "real list list"

subsection \<open>Collaborators imported by the module\<close>

text \<open>
  A kernel object as \<^verbatim>\<open>models.py\<close> uses it: the result of
  \<^verbatim>\<open>similarity_matrix()\<close> and the method \<^verbatim>\<open>similarity(x)\<close>. The classes
  themselves live in the module \<^verbatim>\<open>kernels\<close>; here they are parameters.
\<close>

record 'x Kernel =
  similarity_matrix :: mat
  similarity :: "'x \<Rightarrow> vec"

text \<open>
  The names imported at module level: the registry \<^verbatim>\<open>kernels\<close> (a dict from names
  to kernel constructors taking the training set and gamma) and
  \<^verbatim>\<open>scipy.linalg.solve\<close>, always called with \<^verbatim>\<open>assume_a='pos'\<close>.
\<close>

record 'x env =
  kernels :: "string \<Rightarrow> ('x list \<Rightarrow> real \<Rightarrow> 'x Kernel) option"
  solve :: "mat \<Rightarrow> vec \<Rightarrow> error + vec"

text \<open>
  The augmented classifier also imports \<^verbatim>\<open>augment_dataset\<close> and
  \<^verbatim>\<open>HOGExtractor\<close> from \<^verbatim>\<open>utils\<close>; \<open>HOGExtractor\<close> stands for the
  \<^verbatim>\<open>transform\<close> method of a freshly constructed extractor.
\<close>

record ('r, 'x) aug_env = "'x env" +
  augment_dataset :: "'r list \<Rightarrow> int list \<Rightarrow> real \<Rightarrow> int \<Rightarrow> real \<Rightarrow> real \<Rightarrow> 'r list \<times> int list"
  HOGExtractor :: "'r list \<Rightarrow> 'x list"

subsection \<open>numpy operations\<close>

definition zeros_like :: "mat \<Rightarrow> mat" where
  "zeros_like A = map (map (\<lambda>_. 0)) A"

text \<open>\<^verbatim>\<open>np.fill_diagonal(a, val)\<close> on a 2-d array writes \<open>val\<close> at every \<open>(i, i)\<close> that exists.\<close>

definition fill_diagonal :: "mat \<Rightarrow> real \<Rightarrow> mat" where
  "fill_diagonal A v =
     map (\<lambda>(i, row). if i < length row then row[i := v] else row) (enumerate 0 A)"

text \<open>\<^verbatim>\<open>K += diag\<close> for two arrays of one shape.\<close>

definition iadd :: "mat \<Rightarrow> mat \<Rightarrow> mat" where
  "iadd A B = map2 (map2 (+)) A B"

definition inner :: "vec \<Rightarrow> vec \<Rightarrow> real" where
  "inner a s = sum_list (map2 (*) a s)"

text \<open>\<^verbatim>\<open>np.dot\<close> of two 1-d arrays: the lengths must agree.\<close>

definition np_dot :: "vec \<Rightarrow> vec \<Rightarrow> error + real" where
  "np_dot a s = (if length a = length s then Inr (inner a s) else Inl ValueError)"

text \<open>
  \<^verbatim>\<open>np.argmax\<close> of a 1-d sequence: a left-to-right scan that replaces the running
  maximum only on a strictly greater value, so the first maximum wins; an empty sequence
  raises.
\<close>

fun argmax_scan :: "real \<Rightarrow> nat \<Rightarrow> nat \<Rightarrow> real list \<Rightarrow> nat" where
  "argmax_scan mx mi i [] = mi"
| "argmax_scan mx mi i (x # xs) =
     (if mx < x then argmax_scan x i (Suc i) xs else argmax_scan mx mi (Suc i) xs)"

definition np_argmax :: "real list \<Rightarrow> error + nat" where
  "np_argmax xs = (case xs of [] \<Rightarrow> Inl ValueError | x # rest \<Rightarrow> Inr (argmax_scan x 0 1 rest))"

text \<open>The list comprehension \<^verbatim>\<open>[np.dot(alpha, similarity) for alpha in self.alpha]\<close>.\<close>

fun dots :: "vec list \<Rightarrow> vec \<Rightarrow> error + real list" where
  "dots [] s = Inr []"
| "dots (a # as) s =
     (case np_dot a s of
        Inl e \<Rightarrow> Inl e
      | Inr d \<Rightarrow> (case dots as s of Inl e \<Rightarrow> Inl e | Inr ds \<Rightarrow> Inr (d # ds)))"

subsection \<open>The regularized system (lines 31-33, 67-69, 116-118)\<close>

definition regularize :: "mat \<Rightarrow> real \<Rightarrow> nat \<Rightarrow> mat" where
  "regularize Kmat c n =
     (let diag = fill_diagonal (zeros_like Kmat) (c * real n)
      in iadd Kmat diag)"

subsection \<open>Label binarization and column selection\<close>

text \<open>
  \<^verbatim>\<open>LabelBinarizer(pos_label=1, neg_label=-1).fit_transform(y)\<close> of scikit-learn, for
  integer labels. The classes are the sorted distinct labels. An empty \<open>y\<close> is refused.
  With three or more classes the result has one column per class, \<open>1\<close> where the sample
  has the class and \<open>-1\<close> elsewhere. With two classes the result is a single column, the
  one of the greater class; with one class it is a single column of \<open>-1\<close>.
\<close>

definition LabelBinarizer_fit_transform :: "int list \<Rightarrow> error + int list list" where
  "LabelBinarizer_fit_transform y =
     (let classes = sort (remdups y) in
      if y = [] then Inl ValueError
      else if length classes = 1 then Inr (map (\<lambda>_. [- 1]) y)
      else if length classes = 2 then Inr (map (\<lambda>l. [if l = classes ! 1 then 1 else - 1]) y)
      else Inr (map (\<lambda>l. map (\<lambda>c. if l = c then 1 else - 1) classes) y))"

definition ncols :: "'a list list \<Rightarrow> nat" where
  "ncols Y = (case Y of [] \<Rightarrow> 0 | row # _ \<Rightarrow> length row)"

text \<open>\<^verbatim>\<open>Y[:, c]\<close>: a negative \<open>c\<close> counts from the last column; out of range raises.\<close>

definition column :: "int list list \<Rightarrow> int \<Rightarrow> error + int list" where
  "column Y c =
     (let n = int (ncols Y); j = (if c < 0 then c + n else c)
      in if 0 \<le> j \<and> j < n then Inr (map (\<lambda>row. row ! nat j) Y) else Inl IndexError)"

subsection \<open>Estimator state\<close>

text \<open>
  The attributes set by \<^verbatim>\<open>__init__\<close>. The regressor stores one coefficient vector
  in \<open>alpha\<close>, the classifiers a list of them, so \<open>alpha\<close> is polymorphic.
\<close>

record ('x, 'a) estimator =
  C :: real
  kernel :: string
  gamma :: real
  K :: "'x Kernel option"
  alpha :: "'a option"

record ('r, 'x) augmented = "('x, vec list) estimator" +
  flip_ratio :: real
  rot_replicas :: int
  rot_ratio :: real
  rot_angle :: real
  hog_extractor :: "'r list \<Rightarrow> 'x list"

subsection \<open>KernelRidgeRegressor\<close>

definition KernelRidgeRegressor_init :: "real \<Rightarrow> string \<Rightarrow> real \<Rightarrow> error + ('x, vec) estimator" where
  "KernelRidgeRegressor_init c k g =
     Inr \<lparr>C = c, kernel = k, gamma = g, K = None, alpha = None\<rparr>"

definition KernelRidgeRegressor_fit ::
  "('x, 'm) env_scheme \<Rightarrow> ('x, vec) estimator \<Rightarrow> 'x list \<Rightarrow> vec
     \<Rightarrow> error option \<times> ('x, vec) estimator" where
  "KernelRidgeRegressor_fit env self X y =
     (case kernels env (kernel self) of
        None \<Rightarrow> (Some (KeyError (kernel self)), self)
      | Some mk \<Rightarrow>
          (let self1 = self\<lparr>K := Some (mk X (gamma self))\<rparr>;
               Kmat = similarity_matrix (mk X (gamma self));
               Kreg = regularize Kmat (C self) (length X)
           in case solve env Kreg y of
                Inl e \<Rightarrow> (Some e, self1)
              | Inr a \<Rightarrow> (None, self1\<lparr>alpha := Some a\<rparr>)))"

fun regressor_loop ::
  "('x, vec) estimator \<Rightarrow> 'x list \<Rightarrow> real list \<Rightarrow> error + real list" where
  "regressor_loop self [] preds = Inr preds"
| "regressor_loop self (x # xs) preds =
     (case K self of
        None \<Rightarrow> Inl AttributeError
      | Some k \<Rightarrow>
          (let s = similarity k x
           in case alpha self of
                None \<Rightarrow> Inl TypeError
              | Some a \<Rightarrow>
                  (case np_dot a s of
                     Inl e \<Rightarrow> Inl e
                   | Inr p \<Rightarrow> regressor_loop self xs (preds @ [p]))))"

definition KernelRidgeRegressor_predict ::
  "('x, vec) estimator \<Rightarrow> 'x list \<Rightarrow> (error + real list) \<times> ('x, vec) estimator" where
  "KernelRidgeRegressor_predict self X = (regressor_loop self X [], self)"

subsection \<open>KernelRidgeClassifier\<close>

definition KernelRidgeClassifier_init ::
  "real \<Rightarrow> string \<Rightarrow> real \<Rightarrow> error + ('x, vec list) estimator" where
  "KernelRidgeClassifier_init c k g =
     Inr \<lparr>C = c, kernel = k, gamma = g, K = None, alpha = None\<rparr>"

text \<open>
  The loop of lines 72-73 (and 121-122): \<open>acc\<close> is \<^verbatim>\<open>self.alpha\<close>, grown by one
  vector per class; the column is selected before \<open>solve\<close> is called.
\<close>

fun one_vs_all_loop ::
  "(mat \<Rightarrow> vec \<Rightarrow> error + vec) \<Rightarrow> mat \<Rightarrow> int list list \<Rightarrow> int list \<Rightarrow> vec list
     \<Rightarrow> error option \<times> vec list" where
  "one_vs_all_loop slv Kreg Y [] acc = (None, acc)"
| "one_vs_all_loop slv Kreg Y (c # cs) acc =
     (case column Y c of
        Inl e \<Rightarrow> (Some e, acc)
      | Inr t \<Rightarrow>
          (case slv Kreg (map real_of_int t) of
             Inl e \<Rightarrow> (Some e, acc)
           | Inr a \<Rightarrow> one_vs_all_loop slv Kreg Y cs (acc @ [a])))"

definition KernelRidgeClassifier_fit ::
  "('x, 'm) env_scheme \<Rightarrow> ('x, vec list, 'n) estimator_scheme \<Rightarrow> 'x list \<Rightarrow> int list
     \<Rightarrow> error option \<times> ('x, vec list, 'n) estimator_scheme" where
  "KernelRidgeClassifier_fit env self X y =
     (case LabelBinarizer_fit_transform y of
        Inl e \<Rightarrow> (Some e, self)
      | Inr Y \<Rightarrow>
          (case kernels env (kernel self) of
             None \<Rightarrow> (Some (KeyError (kernel self)), self)
           | Some mk \<Rightarrow>
               (let self1 = self\<lparr>K := Some (mk X (gamma self))\<rparr>;
                    Kmat = similarity_matrix (mk X (gamma self));
                    Kreg = regularize Kmat (C self) (length X);
                    r = one_vs_all_loop (solve env) Kreg Y (sort (remdups y)) []
                in (fst r, self1\<lparr>alpha := Some (snd r)\<rparr>))))"

fun classifier_loop ::
  "('x, vec list, 'n) estimator_scheme \<Rightarrow> 'x list \<Rightarrow> int list \<Rightarrow> error + int list" where
  "classifier_loop self [] preds = Inr preds"
| "classifier_loop self (x # xs) preds =
     (case K self of
        None \<Rightarrow> Inl AttributeError
      | Some k \<Rightarrow>
          (let s = similarity k x
           in case alpha self of
                None \<Rightarrow> Inl TypeError
              | Some as \<Rightarrow>
                  (case dots as s of
                     Inl e \<Rightarrow> Inl e
                   | Inr ds \<Rightarrow>
                       (case np_argmax ds of
                          Inl e \<Rightarrow> Inl e
                        | Inr i \<Rightarrow> classifier_loop self xs (preds @ [int i])))))"

definition KernelRidgeClassifier_predict ::
  "('x, vec list, 'n) estimator_scheme \<Rightarrow> 'x list
     \<Rightarrow> (error + int list) \<times> ('x, vec list, 'n) estimator_scheme" where
  "KernelRidgeClassifier_predict self X = (classifier_loop self X [], self)"

subsection \<open>AugmentedHogsKernelRidgeClassifier\<close>

definition AugmentedHogsKernelRidgeClassifier_init ::
  "('r, 'x, 'm) aug_env_scheme \<Rightarrow> real \<Rightarrow> string \<Rightarrow> real \<Rightarrow> real \<Rightarrow> int \<Rightarrow> real \<Rightarrow> real
     \<Rightarrow> error + ('r, 'x) augmented" where
  "AugmentedHogsKernelRidgeClassifier_init env c k g fr rr rt ra =
     Inr \<lparr>C = c, kernel = k, gamma = g, K = None, alpha = None,
          flip_ratio = fr, rot_replicas = rr, rot_ratio = rt, rot_angle = ra,
          hog_extractor = HOGExtractor env\<rparr>"

definition AugmentedHogsKernelRidgeClassifier_fit ::
  "('r, 'x, 'm) aug_env_scheme \<Rightarrow> ('r, 'x) augmented \<Rightarrow> 'r list \<Rightarrow> int list
     \<Rightarrow> error option \<times> ('r, 'x) augmented" where
  "AugmentedHogsKernelRidgeClassifier_fit env self X y =
     (let Xy = augment_dataset env X y (flip_ratio self) (rot_replicas self)
                 (rot_ratio self) (rot_angle self);
          X1 = hog_extractor self (fst Xy);
          y1 = snd Xy
      in case LabelBinarizer_fit_transform y1 of
           Inl e \<Rightarrow> (Some e, self)
         | Inr Y \<Rightarrow>
             (case kernels env (kernel self) of
                None \<Rightarrow> (Some (KeyError (kernel self)), self)
              | Some mk \<Rightarrow>
                  (let self1 = self\<lparr>K := Some (mk X1 (gamma self))\<rparr>;
                       Kmat = similarity_matrix (mk X1 (gamma self));
                       Kreg = regularize Kmat (C self) (length X1);
                       r = one_vs_all_loop (solve env) Kreg Y (sort (remdups y1)) []
                   in (fst r, self1\<lparr>alpha := Some (snd r)\<rparr>))))"

definition AugmentedHogsKernelRidgeClassifier_predict ::
  "('r, 'x, 'm) aug_env_scheme \<Rightarrow> ('r, 'x) augmented \<Rightarrow> 'r list
     \<Rightarrow> (error + int list) \<times> ('r, 'x) augmented" where
  "AugmentedHogsKernelRidgeClassifier_predict env self X =
     (let X1 = hog_extractor self X
      in (classifier_loop self X1 [], self))"

subsection \<open>Notions used to state the properties\<close>

definition mat_vec :: "mat \<Rightarrow> vec \<Rightarrow> vec" where
  "mat_vec A x = map (\<lambda>row. inner row x) A"

definition symmetric_mat :: "mat \<Rightarrow> bool" where
  "symmetric_mat A =
     (list_all (\<lambda>row. length row = length A) A \<and>
      (\<forall>i \<in> set [0..<length A]. \<forall>j \<in> set [0..<length A]. A ! i ! j = A ! j ! i))"

text \<open>
  What \<^verbatim>\<open>solve(A, b, assume_a='pos')\<close> promises: on a symmetric matrix, a returned
  \<open>x\<close> satisfies \<open>A x = b\<close>. (The positive-definite path reads one triangle of \<open>A\<close>
  only, so nothing is promised for a matrix that is not symmetric.)
\<close>

definition solve_contract :: "(mat \<Rightarrow> vec \<Rightarrow> error + vec) \<Rightarrow> bool" where
  "solve_contract slv =
     (\<forall>A b x. symmetric_mat A \<longrightarrow> slv A b = Inr x \<longrightarrow> mat_vec A x = b)"

text \<open>The one-vs-all target of class \<open>c\<close>: \<open>1\<close> on the samples labelled \<open>c\<close>, \<open>-1\<close> on the others.\<close>

definition one_vs_all :: "int list \<Rightarrow> int \<Rightarrow> vec" where
  "one_vs_all y c = map (\<lambda>l. if l = c then 1 else - 1) y"

subsection \<open>Sample collaborators for concrete evaluation\<close>

text \<open>
  A linear kernel on real feature vectors, a solver for diagonal systems that checks its
  answer, a flip-everything augmentation and an identity feature extractor. They stand in
  for the imported collaborators wherever a statement is evaluated on concrete data.
\<close>

definition linear_kernel :: "real list list \<Rightarrow> real \<Rightarrow> real list Kernel" where
  "linear_kernel X g =
     \<lparr>similarity_matrix = map (\<lambda>a. map (\<lambda>b. inner a b) X) X,
      similarity = (\<lambda>x. map (\<lambda>b. inner x b) X)\<rparr>"

definition diag_solve :: "mat \<Rightarrow> vec \<Rightarrow> error + vec" where
  "diag_solve A b =
     (let x = map (\<lambda>i. b ! i / A ! i ! i) [0..<length A]
      in if length b \<noteq> length A then Inl ValueError
         else if list_all (\<lambda>i. 0 < A ! i ! i) [0..<length A] \<and> mat_vec A x = b then Inr x
         else Inl LinAlgError)"

definition sample_kernels :: "string \<Rightarrow> (real list list \<Rightarrow> real \<Rightarrow> real list Kernel) option" where
  "sample_kernels name = (if name = ''linear'' then Some linear_kernel else None)"

definition sample_env :: "(real list, real list) aug_env" where
  "sample_env =
     \<lparr>kernels = sample_kernels, solve = diag_solve,
      augment_dataset = (\<lambda>X y fr rr rt ra. (X @ map rev X, y @ y)),
      HOGExtractor = (\<lambda>X. X)\<rparr>"

definition unit3 :: "real list list" where
  "unit3 = [[1, 0, 0], [0, 1, 0], [0, 0, 1]]"

definition unit4 :: "real list list" where
  "unit4 = [[1, 0, 0, 0], [0, 1, 0, 0], [0, 0, 1, 0], [0, 0, 0, 1]]"

text \<open>
  The state that \<open>fit\<close> of the classifier leaves for the three unit vectors with three
  distinct labels, \<open>C = 1/3\<close> and the linear kernel, and the same state inside an
  augmented classifier.
\<close>

definition sample_alpha :: "vec list" where
  "sample_alpha = [[1 / 2, - (1 / 2), - (1 / 2)], [- (1 / 2), 1 / 2, - (1 / 2)],
                   [- (1 / 2), - (1 / 2), 1 / 2]]"

definition sample_classifier :: "(real list, vec list) estimator" where
  "sample_classifier =
     \<lparr>C = 1 / 3, kernel = ''linear'', gamma = 10,
      K = Some (linear_kernel unit3 10), alpha = Some sample_alpha\<rparr>"

definition sample_augmented :: "(real list, real list) augmented" where
  "sample_augmented =
     \<lparr>C = 1 / 3, kernel = ''linear'', gamma = 10,
      K = Some (linear_kernel unit3 10), alpha = Some sample_alpha,
      flip_ratio = 1 / 5, rot_replicas = 1, rot_ratio = 1 / 5, rot_angle = 20,
      hog_extractor = HOGExtractor sample_env\<rparr>"

section \<open>Properties\<close>

subsection \<open>The regularized matrix\<close>

lemma length_zeros_like: "length (zeros_like A) = length A"
  by (simp add: zeros_like_def)

lemma length_fill_diagonal: "length (fill_diagonal A v) = length A"
  by (simp add: fill_diagonal_def)

lemma fill_diagonal_zeros_row:
  assumes "i < length A"
  shows "fill_diagonal (zeros_like A) v ! i =
           (if i < length (A ! i) then (replicate (length (A ! i)) 0)[i := v]
            else replicate (length (A ! i)) 0)"
  using assms
  by (simp add: fill_diagonal_def zeros_like_def nth_enumerate_eq map_replicate_const)

lemma length_regularize: "length (regularize A c n) = length A"
  by (simp add: regularize_def iadd_def length_fill_diagonal length_zeros_like)

lemma length_regularize_row:
  assumes "i < length A"
  shows "length (regularize A c n ! i) = length (A ! i)"
  using assms
  by (simp add: regularize_def iadd_def length_fill_diagonal length_zeros_like
      fill_diagonal_zeros_row)

lemma regularize_entry:
  assumes "i < length A" and "j < length (A ! i)"
  shows "regularize A c n ! i ! j = A ! i ! j + (if i = j then c * real n else 0)"
proof (cases "i = j")
  case True
  with assms show ?thesis
    by (simp add: regularize_def iadd_def length_fill_diagonal length_zeros_like
        fill_diagonal_zeros_row)
next
  case False
  with assms show ?thesis
    by (simp add: regularize_def iadd_def length_fill_diagonal length_zeros_like
        fill_diagonal_zeros_row)
qed

lemma symmetric_regularize:
  assumes "symmetric_mat A"
  shows "symmetric_mat (regularize A c n)"
proof -
  have rows: "\<And>i. i < length A \<Longrightarrow> length (A ! i) = length A"
    using assms by (simp add: symmetric_mat_def list_all_length)
  have sym: "\<And>i j. i < length A \<Longrightarrow> j < length A \<Longrightarrow> A ! i ! j = A ! j ! i"
    using assms by (simp add: symmetric_mat_def)
  show ?thesis
    unfolding symmetric_mat_def list_all_length
    by (auto simp: length_regularize length_regularize_row regularize_entry rows sym)
qed

subsection \<open>Facts about the sample collaborators\<close>

lemma diag_solve_contract: "solve_contract diag_solve"
  by (auto simp: solve_contract_def diag_solve_def Let_def split: if_splits)

lemma length_unit3: "length unit3 = 3"
  by (simp add: unit3_def)

lemma linear_unit3_matrix:
  "similarity_matrix (linear_kernel unit3 g) = [[1, 0, 0], [0, 1, 0], [0, 0, 1]]"
  by (simp add: linear_kernel_def unit3_def inner_def)

lemma regularize_unit3:
  "regularize [[1, 0, 0], [0, 1, 0], [0, 0, 1]] (1 / 3) 3 = [[2, 0, 0], [0, 2, 0], [0, 0, 2]]"
  by code_simp

lemma symmetric_unit3: "symmetric_mat [[1, 0, 0], [0, 1, 0], [0, 0, 1]]"
  by code_simp

subsection \<open>Regressor fit\<close>

text \<open>
  C1. For a training set \<open>X\<close> of size \<open>N\<close> and a target vector \<open>y\<close>, the regressor's
  \<open>fit\<close> builds the regularized matrix by adding \<open>C * N\<close> to every diagonal entry of the
  kernel matrix and nothing to the other entries, hands that matrix and \<open>y\<close> to
  \<open>solve\<close>, and on success stores the returned vector as \<open>alpha\<close>, which then satisfies
  \<open>(K + C N I) alpha = y\<close>; a failure of \<open>solve\<close> is the failure of \<open>fit\<close>.
\<close>

theorem regressor_fit_regularized_solve:
  assumes reg: "kernels env (kernel self) = Some mk"
      and sym: "symmetric_mat (similarity_matrix (mk X (gamma self)))"
      and slv: "solve_contract (solve env)"
  shows "let Kmat = similarity_matrix (mk X (gamma self));
             A = regularize Kmat (C self) (length X);
             self1 = self\<lparr>K := Some (mk X (gamma self))\<rparr>
         in length A = length Kmat \<and>
            (\<forall>i<length Kmat. length (A ! i) = length (Kmat ! i) \<and>
               (\<forall>j<length (Kmat ! i).
                  A ! i ! j = Kmat ! i ! j + (if i = j then C self * real (length X) else 0))) \<and>
            (case solve env A y of
               Inl e \<Rightarrow> KernelRidgeRegressor_fit env self X y = (Some e, self1)
             | Inr a \<Rightarrow> KernelRidgeRegressor_fit env self X y = (None, self1\<lparr>alpha := Some a\<rparr>)
                          \<and> mat_vec A a = y)"
proof -
  let ?Kmat = "similarity_matrix (mk X (gamma self))"
  let ?A = "regularize ?Kmat (C self) (length X)"
  have shape: "length ?A = length ?Kmat"
    by (simp add: length_regularize)
  have entries: "\<forall>i<length ?Kmat. length (?A ! i) = length (?Kmat ! i) \<and>
      (\<forall>j<length (?Kmat ! i).
         ?A ! i ! j = ?Kmat ! i ! j + (if i = j then C self * real (length X) else 0))"
    by (simp add: length_regularize_row regularize_entry)
  have symA: "symmetric_mat ?A"
    using sym by (simp add: symmetric_regularize)
  have sol: "mat_vec ?A a = y" if "solve env ?A y = Inr a" for a
    using slv symA that by (auto simp: solve_contract_def)
  have run: "case solve env ?A y of
       Inl e \<Rightarrow> KernelRidgeRegressor_fit env self X y
                  = (Some e, self\<lparr>K := Some (mk X (gamma self))\<rparr>)
     | Inr a \<Rightarrow> KernelRidgeRegressor_fit env self X y
                  = (None, self\<lparr>K := Some (mk X (gamma self)), alpha := Some a\<rparr>)
                \<and> mat_vec ?A a = y"
    using reg sol
    by (auto simp: KernelRidgeRegressor_fit_def Let_def split: sum.splits)
  show ?thesis
    unfolding Let_def using shape entries run by blast
qed

theorem regressor_fit_regularized_solve_witness:
  "kernels sample_env ''linear'' = Some linear_kernel \<and>
   symmetric_mat (similarity_matrix (linear_kernel unit3 10)) \<and>
   solve_contract (solve sample_env) \<and>
   regularize (similarity_matrix (linear_kernel unit3 10)) (1 / 3) (length unit3)
     = [[2, 0, 0], [0, 2, 0], [0, 0, 2]] \<and>
   KernelRidgeRegressor_fit sample_env
       \<lparr>C = 1 / 3, kernel = ''linear'', gamma = 10, K = None, alpha = None\<rparr> unit3 [1, 2, 3]
     = (None, \<lparr>C = 1 / 3, kernel = ''linear'', gamma = 10,
               K = Some (linear_kernel unit3 10), alpha = Some [1 / 2, 1, 3 / 2]\<rparr>) \<and>
   mat_vec [[2, 0, 0], [0, 2, 0], [0, 0, 2]] [1 / 2, 1, 3 / 2] = [1, 2, 3]"
proof -
  let ?self = "\<lparr>C = 1 / 3, kernel = ''linear'', gamma = 10, K = None, alpha = None\<rparr>
                 :: (real list, vec) estimator"
  have h1: "kernels sample_env (kernel ?self) = Some linear_kernel"
    by (simp add: sample_env_def sample_kernels_def)
  have h2: "symmetric_mat (similarity_matrix (linear_kernel unit3 (gamma ?self)))"
    by (simp add: linear_unit3_matrix symmetric_unit3)
  have h3: "solve_contract (solve sample_env)"
    by (simp add: sample_env_def diag_solve_contract)
  have ev: "solve sample_env [[2, 0, 0], [0, 2, 0], [0, 0, 2]] [1, 2, 3] = Inr [1 / 2, 1, 3 / 2]"
    unfolding sample_env_def by (simp, code_simp)
  show ?thesis
    using regressor_fit_regularized_solve [OF h1 h2 h3, of "[1, 2, 3]"] h1 h2 h3
    by (simp add: Let_def linear_unit3_matrix length_unit3 regularize_unit3 ev)
qed

subsection \<open>Unsupported kernel names\<close>

lemma sample_kernels_sigmoid: "kernels sample_env ''sigmoid'' = None"
  by (simp add: sample_env_def sample_kernels_def)

lemma LabelBinarizer_nonempty:
  assumes "y \<noteq> []"
  shows "\<exists>Y. LabelBinarizer_fit_transform y = Inr Y"
  using assms by (simp add: LabelBinarizer_fit_transform_def Let_def)

text \<open>
  Against C2 as stated: with a registry that has no entry \<open>sigmoid\<close>, the constructor
  returns an estimator, and the \<open>KeyError\<close> comes out of the later call of \<open>fit\<close>.
\<close>

theorem unsupported_kernel_constructor_counterexample:
  "kernels sample_env ''sigmoid'' = None \<and>
   (KernelRidgeRegressor_init 1 ''sigmoid'' 10 :: error + (real list, vec) estimator)
     = Inr \<lparr>C = 1, kernel = ''sigmoid'', gamma = 10, K = None, alpha = None\<rparr> \<and>
   KernelRidgeRegressor_fit sample_env
       \<lparr>C = 1, kernel = ''sigmoid'', gamma = 10, K = None, alpha = None\<rparr> unit3 [1, 2, 3]
     = (Some (KeyError ''sigmoid''),
        \<lparr>C = 1, kernel = ''sigmoid'', gamma = 10, K = None, alpha = None\<rparr>)"
  by (simp add: sample_kernels_sigmoid KernelRidgeRegressor_init_def KernelRidgeRegressor_fit_def)

text \<open>
  C2, amended. For a kernel name that the registry does not have, no constructor raises:
  each returns the estimator with the name stored. The lookup happens in \<open>fit\<close>, which
  raises \<open>KeyError\<close> and leaves the estimator as it was: the regressor at once, the two
  classifiers once the (augmented) label vector has passed label binarization, that is,
  whenever it is not empty.
\<close>

theorem unsupported_kernel_raised_by_fit:
  assumes "kernels env name = None"
  shows "(\<exists>r. KernelRidgeRegressor_init c name g = Inr r \<and>
            (\<forall>X y. KernelRidgeRegressor_fit env r X y = (Some (KeyError name), r))) \<and>
         (\<exists>cl. KernelRidgeClassifier_init c name g = Inr cl \<and>
            (\<forall>X y. y \<noteq> [] \<longrightarrow>
               KernelRidgeClassifier_fit env cl X y = (Some (KeyError name), cl))) \<and>
         (\<exists>au. AugmentedHogsKernelRidgeClassifier_init env c name g fr rr rt ra = Inr au \<and>
            (\<forall>X y. snd (augment_dataset env X y fr rr rt ra) \<noteq> [] \<longrightarrow>
               AugmentedHogsKernelRidgeClassifier_fit env au X y = (Some (KeyError name), au)))"
proof (intro conjI)
  show "\<exists>r. KernelRidgeRegressor_init c name g = Inr r \<and>
            (\<forall>X y. KernelRidgeRegressor_fit env r X y = (Some (KeyError name), r))"
    using assms by (simp add: KernelRidgeRegressor_init_def KernelRidgeRegressor_fit_def)
next
  have "KernelRidgeClassifier_fit env
          \<lparr>C = c, kernel = name, gamma = g, K = None, alpha = None\<rparr> X y
        = (Some (KeyError name), \<lparr>C = c, kernel = name, gamma = g, K = None, alpha = None\<rparr>)"
    if "y \<noteq> []" for X y
    using assms LabelBinarizer_nonempty [OF that]
    by (auto simp: KernelRidgeClassifier_fit_def)
  then show "\<exists>cl. KernelRidgeClassifier_init c name g = Inr cl \<and>
            (\<forall>X y. y \<noteq> [] \<longrightarrow>
               KernelRidgeClassifier_fit env cl X y = (Some (KeyError name), cl))"
    by (simp add: KernelRidgeClassifier_init_def)
next
  let ?au = "\<lparr>C = c, kernel = name, gamma = g, K = None, alpha = None,
          flip_ratio = fr, rot_replicas = rr, rot_ratio = rt, rot_angle = ra,
          hog_extractor = HOGExtractor env\<rparr>"
  have "AugmentedHogsKernelRidgeClassifier_fit env ?au X y = (Some (KeyError name), ?au)"
    if "snd (augment_dataset env X y fr rr rt ra) \<noteq> []" for X y
    using assms LabelBinarizer_nonempty [OF that]
    by (auto simp: AugmentedHogsKernelRidgeClassifier_fit_def Let_def)
  then show "\<exists>au. AugmentedHogsKernelRidgeClassifier_init env c name g fr rr rt ra = Inr au \<and>
            (\<forall>X y. snd (augment_dataset env X y fr rr rt ra) \<noteq> [] \<longrightarrow>
               AugmentedHogsKernelRidgeClassifier_fit env au X y = (Some (KeyError name), au))"
    by (simp add: AugmentedHogsKernelRidgeClassifier_init_def)
qed

theorem unsupported_kernel_raised_by_fit_witness:
  "kernels sample_env ''sigmoid'' = None \<and>
   [0, 1, 2] \<noteq> ([] :: int list) \<and>
   KernelRidgeClassifier_fit sample_env
       \<lparr>C = 1, kernel = ''sigmoid'', gamma = 10, K = None, alpha = None\<rparr> unit3 [0, 1, 2]
     = (Some (KeyError ''sigmoid''),
        \<lparr>C = 1, kernel = ''sigmoid'', gamma = 10, K = None, alpha = None\<rparr>) \<and>
   snd (augment_dataset sample_env unit3 [0, 1, 2] (1 / 5) 1 (1 / 5) 20) \<noteq> [] \<and>
   fst (AugmentedHogsKernelRidgeClassifier_fit sample_env
       \<lparr>C = 1, kernel = ''sigmoid'', gamma = 10, K = None, alpha = None,
        flip_ratio = 1 / 5, rot_replicas = 1, rot_ratio = 1 / 5, rot_angle = 20,
        hog_extractor = HOGExtractor sample_env\<rparr> unit3 [0, 1, 2])
     = Some (KeyError ''sigmoid'')"
proof -
  have h: "kernels sample_env ''sigmoid'' = None"
    by (rule sample_kernels_sigmoid)
  have a: "snd (augment_dataset sample_env unit3 [0, 1, 2] (1 / 5) 1 (1 / 5) 20) \<noteq> []"
    by (simp add: sample_env_def)
  show ?thesis
    using unsupported_kernel_raised_by_fit [OF h, of 1 10 "1 / 5" 1 "1 / 5" 20] h a
    by (simp add: KernelRidgeClassifier_init_def AugmentedHogsKernelRidgeClassifier_init_def)
qed

subsection \<open>Predicting before fitting\<close>

lemma regressor_loop_unfitted:
  assumes "K self = None" and "X \<noteq> []"
  shows "regressor_loop self X preds = Inl AttributeError"
  using assms by (cases X) simp_all

lemma classifier_loop_unfitted:
  assumes "K self = None" and "X \<noteq> []"
  shows "classifier_loop self X preds = Inl AttributeError"
  using assms by (cases X) simp_all

text \<open>
  Against C8 as stated: on an estimator that was only constructed, \<open>predict\<close> of an
  empty sequence of samples raises nothing and returns the empty array.
\<close>

theorem predict_before_fit_counterexample:
  "(KernelRidgeRegressor_init 1 ''linear'' 10 :: error + (real list, vec) estimator)
     = Inr \<lparr>C = 1, kernel = ''linear'', gamma = 10, K = None, alpha = None\<rparr> \<and>
   KernelRidgeRegressor_predict
       \<lparr>C = 1, kernel = ''linear'', gamma = 10, K = None, alpha = None\<rparr> ([] :: real list list)
     = (Inr [], \<lparr>C = 1, kernel = ''linear'', gamma = 10, K = None, alpha = None\<rparr>)"
  by (simp add: KernelRidgeRegressor_init_def KernelRidgeRegressor_predict_def)

text \<open>
  C8, amended. On an estimator on which \<open>fit\<close> has not been called, \<open>predict\<close> of a
  non-empty sequence of samples (for the augmented classifier: a sequence whose extracted
  features are non-empty) raises \<open>AttributeError\<close> at the first sample, where the absent
  kernel is dereferenced, and returns no prediction; the estimator stays as it was.
\<close>

theorem predict_before_fit_raises:
  assumes "KernelRidgeRegressor_init c k g = Inr r"
      and "KernelRidgeClassifier_init c k g = Inr cl"
      and "AugmentedHogsKernelRidgeClassifier_init env c k g fr rr rt ra = Inr au"
  shows "(X \<noteq> [] \<longrightarrow> KernelRidgeRegressor_predict r X = (Inl AttributeError, r)) \<and>
         (X \<noteq> [] \<longrightarrow> KernelRidgeClassifier_predict cl X = (Inl AttributeError, cl)) \<and>
         (hog_extractor au R \<noteq> [] \<longrightarrow>
            AugmentedHogsKernelRidgeClassifier_predict env au R = (Inl AttributeError, au))"
proof -
  have "K r = None" "K cl = None" "K au = None"
    using assms
    by (auto simp: KernelRidgeRegressor_init_def KernelRidgeClassifier_init_def
        AugmentedHogsKernelRidgeClassifier_init_def)
  then show ?thesis
    by (simp add: KernelRidgeRegressor_predict_def KernelRidgeClassifier_predict_def
        AugmentedHogsKernelRidgeClassifier_predict_def Let_def
        regressor_loop_unfitted classifier_loop_unfitted)
qed

theorem predict_before_fit_raises_witness:
  "unit3 \<noteq> [] \<and>
   KernelRidgeRegressor_predict
       \<lparr>C = 1, kernel = ''linear'', gamma = 10, K = None, alpha = None\<rparr> unit3
     = (Inl AttributeError, \<lparr>C = 1, kernel = ''linear'', gamma = 10, K = None, alpha = None\<rparr>) \<and>
   fst (KernelRidgeClassifier_predict
       \<lparr>C = 1, kernel = ''linear'', gamma = 10, K = None, alpha = None\<rparr> unit3)
     = Inl AttributeError \<and>
   HOGExtractor sample_env unit3 \<noteq> [] \<and>
   fst (AugmentedHogsKernelRidgeClassifier_predict sample_env
       \<lparr>C = 1, kernel = ''linear'', gamma = 10, K = None, alpha = None,
        flip_ratio = 1 / 5, rot_replicas = 1, rot_ratio = 1 / 5, rot_angle = 20,
        hog_extractor = HOGExtractor sample_env\<rparr> unit3)
     = Inl AttributeError"
proof -
  have n: "unit3 \<noteq> []"
    by (simp add: unit3_def)
  have h: "HOGExtractor sample_env unit3 \<noteq> []"
    by (simp add: sample_env_def unit3_def)
  have i1: "(KernelRidgeRegressor_init 1 ''linear'' 10 :: error + (real list, vec) estimator)
      = Inr \<lparr>C = 1, kernel = ''linear'', gamma = 10, K = None, alpha = None\<rparr>"
    by (simp add: KernelRidgeRegressor_init_def)
  have i2: "(KernelRidgeClassifier_init 1 ''linear'' 10 :: error + (real list, vec list) estimator)
      = Inr \<lparr>C = 1, kernel = ''linear'', gamma = 10, K = None, alpha = None\<rparr>"
    by (simp add: KernelRidgeClassifier_init_def)
  have i3: "AugmentedHogsKernelRidgeClassifier_init sample_env 1 ''linear'' 10 (1 / 5) 1 (1 / 5) 20
      = Inr \<lparr>C = 1, kernel = ''linear'', gamma = 10, K = None, alpha = None,
        flip_ratio = 1 / 5, rot_replicas = 1, rot_ratio = 1 / 5, rot_angle = 20,
        hog_extractor = HOGExtractor sample_env\<rparr>"
    by (simp add: AugmentedHogsKernelRidgeClassifier_init_def)
  show ?thesis
    using predict_before_fit_raises [OF i1 i2 i3, of unit3 unit3] n h
    by simp
qed

subsection \<open>What fit and predict leave alone\<close>

text \<open>
  C9. Whatever their outcome, \<open>fit\<close> and \<open>predict\<close> leave the hyperparameters set at
  construction (\<open>C\<close>, \<open>kernel\<close>, \<open>gamma\<close>, and for the augmented classifier
  \<open>flip_ratio\<close>, \<open>rot_replicas\<close>, \<open>rot_ratio\<close>, \<open>rot_angle\<close>) as they were, and
  \<open>predict\<close> hands back the whole estimator state, kernel and coefficients included,
  unchanged.
\<close>

theorem configuration_and_model_state_frame:
  "C (snd (KernelRidgeRegressor_fit env r X y)) = C r \<and>
   kernel (snd (KernelRidgeRegressor_fit env r X y)) = kernel r \<and>
   gamma (snd (KernelRidgeRegressor_fit env r X y)) = gamma r \<and>
   snd (KernelRidgeRegressor_predict r X') = r \<and>
   C (snd (KernelRidgeClassifier_fit env cl X yc)) = C cl \<and>
   kernel (snd (KernelRidgeClassifier_fit env cl X yc)) = kernel cl \<and>
   gamma (snd (KernelRidgeClassifier_fit env cl X yc)) = gamma cl \<and>
   snd (KernelRidgeClassifier_predict cl X') = cl \<and>
   C (snd (AugmentedHogsKernelRidgeClassifier_fit aenv au R yc)) = C au \<and>
   kernel (snd (AugmentedHogsKernelRidgeClassifier_fit aenv au R yc)) = kernel au \<and>
   gamma (snd (AugmentedHogsKernelRidgeClassifier_fit aenv au R yc)) = gamma au \<and>
   flip_ratio (snd (AugmentedHogsKernelRidgeClassifier_fit aenv au R yc)) = flip_ratio au \<and>
   rot_replicas (snd (AugmentedHogsKernelRidgeClassifier_fit aenv au R yc)) = rot_replicas au \<and>
   rot_ratio (snd (AugmentedHogsKernelRidgeClassifier_fit aenv au R yc)) = rot_ratio au \<and>
   rot_angle (snd (AugmentedHogsKernelRidgeClassifier_fit aenv au R yc)) = rot_angle au \<and>
   snd (AugmentedHogsKernelRidgeClassifier_predict aenv au R') = au"
proof -
  have reg: "C (snd (KernelRidgeRegressor_fit env r X y)) = C r \<and>
      kernel (snd (KernelRidgeRegressor_fit env r X y)) = kernel r \<and>
      gamma (snd (KernelRidgeRegressor_fit env r X y)) = gamma r"
    by (simp add: KernelRidgeRegressor_fit_def Let_def split: option.splits sum.splits)
  have cls: "C (snd (KernelRidgeClassifier_fit env cl X yc)) = C cl \<and>
      kernel (snd (KernelRidgeClassifier_fit env cl X yc)) = kernel cl \<and>
      gamma (snd (KernelRidgeClassifier_fit env cl X yc)) = gamma cl"
    by (simp add: KernelRidgeClassifier_fit_def Let_def split: option.splits sum.splits)
  have aug: "C (snd (AugmentedHogsKernelRidgeClassifier_fit aenv au R yc)) = C au \<and>
      kernel (snd (AugmentedHogsKernelRidgeClassifier_fit aenv au R yc)) = kernel au \<and>
      gamma (snd (AugmentedHogsKernelRidgeClassifier_fit aenv au R yc)) = gamma au \<and>
      flip_ratio (snd (AugmentedHogsKernelRidgeClassifier_fit aenv au R yc)) = flip_ratio au \<and>
      rot_replicas (snd (AugmentedHogsKernelRidgeClassifier_fit aenv au R yc)) = rot_replicas au \<and>
      rot_ratio (snd (AugmentedHogsKernelRidgeClassifier_fit aenv au R yc)) = rot_ratio au \<and>
      rot_angle (snd (AugmentedHogsKernelRidgeClassifier_fit aenv au R yc)) = rot_angle au"
    by (simp add: AugmentedHogsKernelRidgeClassifier_fit_def Let_def
        split: option.splits sum.splits)
  have prd: "snd (KernelRidgeRegressor_predict r X') = r"
      "snd (KernelRidgeClassifier_predict cl X') = cl"
      "snd (AugmentedHogsKernelRidgeClassifier_predict aenv au R') = au"
    by (simp_all add: KernelRidgeRegressor_predict_def KernelRidgeClassifier_predict_def
        AugmentedHogsKernelRidgeClassifier_predict_def Let_def)
  show ?thesis
    using reg cls aug prd by simp
qed

subsection \<open>Regressor predict\<close>

lemma regressor_loop_Inr:
  "K self = Some k \<Longrightarrow> alpha self = Some a \<Longrightarrow> regressor_loop self X preds = Inr out
     \<Longrightarrow> out = preds @ map (\<lambda>x. inner a (similarity k x)) X"
proof (induction X arbitrary: preds)
  case Nil
  then show ?case by simp
next
  case (Cons x X)
  from Cons.prems have len: "length a = length (similarity k x)"
    by (auto simp: np_dot_def Let_def split: if_splits)
  with Cons.prems have "regressor_loop self X (preds @ [inner a (similarity k x)]) = Inr out"
    by (simp add: np_dot_def Let_def)
  from Cons.IH [OF Cons.prems(1,2) this] show ?case
    by simp
qed

lemma regressor_loop_total:
  "K self = Some k \<Longrightarrow> alpha self = Some a
     \<Longrightarrow> \<forall>x\<in>set X. length (similarity k x) = length a
     \<Longrightarrow> regressor_loop self X preds = Inr (preds @ map (\<lambda>x. inner a (similarity k x)) X)"
proof (induction X arbitrary: preds)
  case Nil
  then show ?case by simp
next
  case (Cons x X)
  then show ?case
    by (simp add: np_dot_def Let_def)
qed

lemma linear_unit3_similarity:
  "similarity (linear_kernel unit3 g) x = map (\<lambda>b. inner x b) unit3"
  by (simp add: linear_kernel_def)

text \<open>
  C6. On a fitted regressor, whatever \<open>predict\<close> returns for a sequence of samples has one
  scalar per sample, in the order of the samples, and the scalar for a sample \<open>x\<close> is the
  dot product of the stored \<open>alpha\<close> with the kernel's similarity vector of \<open>x\<close>. It does
  return whenever every similarity vector has the length of \<open>alpha\<close>.
\<close>

theorem regressor_predict_dot_products:
  assumes "K self = Some k" and "alpha self = Some a"
  shows "(\<forall>preds. fst (KernelRidgeRegressor_predict self X) = Inr preds \<longrightarrow>
            length preds = length X \<and>
            (\<forall>i<length X. preds ! i = sum_list (map2 (*) a (similarity k (X ! i))))) \<and>
         ((\<forall>x\<in>set X. length (similarity k x) = length a) \<longrightarrow>
            fst (KernelRidgeRegressor_predict self X)
              = Inr (map (\<lambda>x. sum_list (map2 (*) a (similarity k x))) X))"
proof -
  have ret: "length preds = length X \<and>
      (\<forall>i<length X. preds ! i = sum_list (map2 (*) a (similarity k (X ! i))))"
    if "fst (KernelRidgeRegressor_predict self X) = Inr preds" for preds
  proof -
    from that have "regressor_loop self X [] = Inr preds"
      by (simp add: KernelRidgeRegressor_predict_def)
    from regressor_loop_Inr [OF assms this]
    have "preds = map (\<lambda>x. inner a (similarity k x)) X"
      by simp
    then show ?thesis
      by (simp add: inner_def)
  qed
  have tot: "fst (KernelRidgeRegressor_predict self X)
      = Inr (map (\<lambda>x. sum_list (map2 (*) a (similarity k x))) X)"
    if "\<forall>x\<in>set X. length (similarity k x) = length a"
    using regressor_loop_total [OF assms that, of "[]"]
    by (simp add: KernelRidgeRegressor_predict_def inner_def)
  from ret tot show ?thesis
    by blast
qed

theorem regressor_predict_dot_products_witness:
  "list_all (\<lambda>x. length (similarity (linear_kernel unit3 10) x) = length [1 / 2, 1, 3 / 2 :: real])
      [[1, 0, 0], [0, 0, 1]] \<and>
   fst (KernelRidgeRegressor_predict
          \<lparr>C = 1 / 3, kernel = ''linear'', gamma = 10,
           K = Some (linear_kernel unit3 10), alpha = Some [1 / 2, 1, 3 / 2]\<rparr>
          [[1, 0, 0], [0, 0, 1]])
     = Inr [1 / 2, 3 / 2]"
proof -
  let ?self = "\<lparr>C = 1 / 3, kernel = ''linear'', gamma = 10,
           K = Some (linear_kernel unit3 10), alpha = Some [1 / 2, 1, 3 / 2]\<rparr>
             :: (real list, vec) estimator"
  have h1: "K ?self = Some (linear_kernel unit3 10)" by simp
  have h2: "alpha ?self = Some [1 / 2, 1, 3 / 2]" by simp
  have h3: "\<forall>x\<in>set [[1, 0, 0], [0, 0, 1 :: real]].
      length (similarity (linear_kernel unit3 10) x) = length [1 / 2, 1, 3 / 2 :: real]"
    by (simp add: linear_kernel_def unit3_def)
  from regressor_predict_dot_products [OF h1 h2, of "[[1, 0, 0], [0, 0, 1]]"] h3
  have "fst (KernelRidgeRegressor_predict ?self [[1, 0, 0], [0, 0, 1]])
      = Inr (map (\<lambda>x. sum_list (map2 (*) [1 / 2, 1, 3 / 2] (similarity (linear_kernel unit3 10) x)))
              [[1, 0, 0], [0, 0, 1]])"
    by blast
  then have "fst (KernelRidgeRegressor_predict ?self [[1, 0, 0], [0, 0, 1]]) = Inr [1 / 2, 3 / 2]"
    by (simp add: linear_kernel_def unit3_def inner_def)
  with h3 show ?thesis
    by (simp add: list_all_iff)
qed

subsection \<open>Classifier predict\<close>

lemma argmax_scan_first_max:
  "mi < length pre \<Longrightarrow> pre ! mi = mx \<Longrightarrow> \<forall>j<length pre. pre ! j \<le> mx
     \<Longrightarrow> \<forall>j<mi. pre ! j < mx
     \<Longrightarrow> argmax_scan mx mi (length pre) xs < length (pre @ xs) \<and>
         (\<forall>j<length (pre @ xs). (pre @ xs) ! j \<le> (pre @ xs) ! argmax_scan mx mi (length pre) xs) \<and>
         (\<forall>j<argmax_scan mx mi (length pre) xs.
            (pre @ xs) ! j < (pre @ xs) ! argmax_scan mx mi (length pre) xs)"
proof (induction xs arbitrary: pre mx mi)
  case Nil
  then show ?case by simp
next
  case (Cons x xs)
  have len: "Suc (length pre) = length (pre @ [x])" by simp
  show ?case
  proof (cases "mx < x")
    case True
    have a: "length pre < length (pre @ [x])" by simp
    have b: "(pre @ [x]) ! length pre = x" by simp
    have c: "\<forall>j<length (pre @ [x]). (pre @ [x]) ! j \<le> x"
      using Cons.prems(3) True by (auto simp: nth_append less_Suc_eq)
    have d: "\<forall>j<length pre. (pre @ [x]) ! j < x"
      using Cons.prems(3) True by (auto simp: nth_append)
    from Cons.IH [OF a b c d] True show ?thesis
      by (simp del: length_append add: len [symmetric])
  next
    case False
    have a: "mi < length (pre @ [x])" using Cons.prems(1) by simp
    have b: "(pre @ [x]) ! mi = mx" using Cons.prems(1,2) by (simp add: nth_append)
    have c: "\<forall>j<length (pre @ [x]). (pre @ [x]) ! j \<le> mx"
      using Cons.prems(3) False by (auto simp: nth_append less_Suc_eq)
    have d: "\<forall>j<mi. (pre @ [x]) ! j < mx"
      using Cons.prems(1,4) by (auto simp: nth_append)
    from Cons.IH [OF a b c d] False show ?thesis
      by (simp del: length_append add: len [symmetric])
  qed
qed

lemma np_argmax_first_max:
  assumes "np_argmax xs = Inr i"
  shows "i < length xs \<and> (\<forall>j<length xs. xs ! j \<le> xs ! i) \<and> (\<forall>j<i. xs ! j < xs ! i)"
proof (cases xs)
  case Nil
  with assms show ?thesis by (simp add: np_argmax_def)
next
  case (Cons x rest)
  with assms have i: "i = argmax_scan x 0 (length [x]) rest"
    by (simp add: np_argmax_def)
  from argmax_scan_first_max [of 0 "[x]" x rest] show ?thesis
    unfolding i Cons by simp
qed

lemma np_argmax_nonempty:
  assumes "xs \<noteq> []"
  shows "\<exists>i. np_argmax xs = Inr i"
  using assms by (cases xs) (simp_all add: np_argmax_def)

lemma dots_Inr:
  "dots as s = Inr ds \<Longrightarrow> ds = map (\<lambda>a. inner a s) as"
proof (induction as arbitrary: ds)
  case Nil
  then show ?case by simp
next
  case (Cons a as)
  then show ?case
    by (auto simp: np_dot_def split: if_splits sum.splits)
qed

lemma dots_total:
  "\<forall>a\<in>set as. length a = length s \<Longrightarrow> dots as s = Inr (map (\<lambda>a. inner a s) as)"
  by (induction as) (simp_all add: np_dot_def)

lemma classifier_loop_Inr:
  "alpha self = Some A \<Longrightarrow> classifier_loop self X preds = Inr out
     \<Longrightarrow> \<exists>k new. (X \<noteq> [] \<longrightarrow> K self = Some k) \<and> out = preds @ new \<and>
           list_all2 (\<lambda>x p. \<exists>i. np_argmax (map (\<lambda>a. inner a (similarity k x)) A) = Inr i
                               \<and> p = int i) X new"
proof (induction X arbitrary: preds)
  case Nil
  then show ?case by simp
next
  case (Cons x X)
  from Cons.prems obtain k where k: "K self = Some k"
    by (cases "K self") simp_all
  from Cons.prems k obtain ds where ds: "dots A (similarity k x) = Inr ds"
    by (cases "dots A (similarity k x)") (simp_all add: Let_def)
  from Cons.prems k ds obtain i where i: "np_argmax ds = Inr i"
    by (cases "np_argmax ds") (simp_all add: Let_def)
  from Cons.prems k ds i have rec: "classifier_loop self X (preds @ [int i]) = Inr out"
    by (simp add: Let_def)
  from Cons.IH [OF Cons.prems(1) rec] obtain k' new where
    new: "X \<noteq> [] \<longrightarrow> K self = Some k'" "out = (preds @ [int i]) @ new"
      "list_all2 (\<lambda>x p. \<exists>i. np_argmax (map (\<lambda>a. inner a (similarity k' x)) A) = Inr i
                               \<and> p = int i) X new"
    by blast
  have all: "list_all2 (\<lambda>x p. \<exists>i. np_argmax (map (\<lambda>a. inner a (similarity k x)) A) = Inr i
                               \<and> p = int i) X new"
  proof (cases "X = []")
    case True
    with new(3) show ?thesis by simp
  next
    case False
    with new(1) k have "k' = k" by simp
    with new(3) show ?thesis by simp
  qed
  have "np_argmax (map (\<lambda>a. inner a (similarity k x)) A) = Inr i"
    using dots_Inr [OF ds] i by simp
  with all new(2) k show ?case
    by (intro exI [of _ k] exI [of _ "int i # new"]) simp
qed

lemma classifier_loop_total:
  "K self = Some k \<Longrightarrow> alpha self = Some A \<Longrightarrow> A \<noteq> []
     \<Longrightarrow> \<forall>x\<in>set X. \<forall>a\<in>set A. length a = length (similarity k x)
     \<Longrightarrow> \<exists>out. classifier_loop self X preds = Inr out"
proof (induction X arbitrary: preds)
  case Nil
  then show ?case by simp
next
  case (Cons x X)
  have ds: "dots A (similarity k x) = Inr (map (\<lambda>a. inner a (similarity k x)) A)"
    using Cons.prems(4) by (intro dots_total) simp
  obtain i where i: "np_argmax (map (\<lambda>a. inner a (similarity k x)) A) = Inr i"
    using np_argmax_nonempty [of "map (\<lambda>a. inner a (similarity k x)) A"] Cons.prems(3)
    by auto
  have rest: "\<forall>x\<in>set X. \<forall>a\<in>set A. length a = length (similarity k x)"
    using Cons.prems(4) by (meson list.set_intros(2))
  have "\<exists>out. classifier_loop self X (preds @ [int i]) = Inr out"
    by (rule Cons.IH [OF Cons.prems(1,2,3) rest])
  with Cons.prems(1,2) ds i show ?case
    by (simp add: Let_def)
qed

lemma classifier_loop_index_bound:
  fixes self :: "('x, vec list, 'n) estimator_scheme"
  assumes "alpha self = Some A" and "classifier_loop self X [] = Inr preds"
  shows "\<forall>p\<in>set preds. 0 \<le> p \<and> p < int (length A)"
proof -
  from classifier_loop_Inr [OF assms] obtain k :: "'x Kernel" and new where
    new: "preds = [] @ new"
      "list_all2 (\<lambda>x p. \<exists>i. np_argmax (map (\<lambda>a. inner a (similarity k x)) A) = Inr i
                               \<and> p = int i) X new"
    by blast
  then have all: "list_all2 (\<lambda>x p. \<exists>i. np_argmax (map (\<lambda>a. inner a (similarity k x)) A) = Inr i
                               \<and> p = int i) X preds"
    by simp
  show ?thesis
  proof
    fix p assume "p \<in> set preds"
    then obtain n where n: "n < length preds" "preds ! n = p"
      by (auto simp: in_set_conv_nth)
    from list_all2_nthD2 [OF all n(1)] n(2) obtain i where
      i: "np_argmax (map (\<lambda>a. inner a (similarity k (X ! n))) A) = Inr i" "p = int i"
      by auto
    from np_argmax_first_max [OF i(1)] i(2) show "0 \<le> p \<and> p < int (length A)"
      by simp
  qed
qed

lemma sample_classifier_predict:
  "fst (KernelRidgeClassifier_predict sample_classifier [[0, 1, 0], [1, 0, 0]]) = Inr [1, 0]"
  by code_simp

lemma sample_augmented_predict:
  "fst (AugmentedHogsKernelRidgeClassifier_predict sample_env sample_augmented [[0, 0, 1]])
     = Inr [2]"
  by code_simp

text \<open>
  C10. Whatever \<open>predict\<close> of the classifier or of the augmented classifier returns on an
  estimator holding coefficient vectors, each returned value is a non-negative integer
  strictly below the number of stored coefficient vectors: an index into the coefficient
  array, whatever the training labels were.
\<close>

theorem classifier_predict_returns_coefficient_index:
  "(alpha cl = Some A \<and> fst (KernelRidgeClassifier_predict cl X) = Inr preds
      \<longrightarrow> (\<forall>p\<in>set preds. 0 \<le> p \<and> p < int (length A))) \<and>
   (alpha au = Some A' \<and> fst (AugmentedHogsKernelRidgeClassifier_predict env au R) = Inr preds'
      \<longrightarrow> (\<forall>p\<in>set preds'. 0 \<le> p \<and> p < int (length A')))"
proof (intro conjI impI)
  assume "alpha cl = Some A \<and> fst (KernelRidgeClassifier_predict cl X) = Inr preds"
  then show "\<forall>p\<in>set preds. 0 \<le> p \<and> p < int (length A)"
    using classifier_loop_index_bound [of cl A X preds]
    by (simp add: KernelRidgeClassifier_predict_def)
next
  assume "alpha au = Some A' \<and>
    fst (AugmentedHogsKernelRidgeClassifier_predict env au R) = Inr preds'"
  then show "\<forall>p\<in>set preds'. 0 \<le> p \<and> p < int (length A')"
    using classifier_loop_index_bound [of au A' "hog_extractor au R" preds']
    by (simp add: AugmentedHogsKernelRidgeClassifier_predict_def Let_def)
qed

theorem classifier_predict_returns_coefficient_index_witness:
  "alpha sample_classifier = Some sample_alpha \<and>
   fst (KernelRidgeClassifier_predict sample_classifier [[0, 1, 0], [1, 0, 0]]) = Inr [1, 0] \<and>
   list_all (\<lambda>p. 0 \<le> p \<and> p < int (length sample_alpha)) [1, 0] \<and>
   alpha sample_augmented = Some sample_alpha \<and>
   fst (AugmentedHogsKernelRidgeClassifier_predict sample_env sample_augmented [[0, 0, 1]])
     = Inr [2] \<and>
   list_all (\<lambda>p. 0 \<le> p \<and> p < int (length sample_alpha)) [2]"
proof -
  have a1: "alpha sample_classifier = Some sample_alpha"
    by (simp add: sample_classifier_def)
  have a2: "alpha sample_augmented = Some sample_alpha"
    by (simp add: sample_augmented_def)
  from classifier_predict_returns_coefficient_index
         [of sample_classifier sample_alpha "[[0, 1, 0], [1, 0, 0]]" "[1, 0]"
             sample_augmented sample_alpha sample_env "[[0, 0, 1]]" "[2]"]
       a1 a2 sample_classifier_predict sample_augmented_predict
  show ?thesis
    unfolding list_all_iff by blast
qed

text \<open>
  Against C3 as stated: trained on the labels \<open>-3, -2, -1\<close>, \<open>fit\<close> succeeds, and
  \<open>predict\<close> on the training samples returns \<open>0, 1, 2\<close>, none of which is a training
  label.
\<close>

theorem classifier_predict_label_counterexample:
  "fst (KernelRidgeClassifier_fit sample_env
          \<lparr>C = 1 / 3, kernel = ''linear'', gamma = 10, K = None, alpha = None\<rparr>
          unit3 [- 3, - 2, - 1]) = None \<and>
   fst (KernelRidgeClassifier_predict
          (snd (KernelRidgeClassifier_fit sample_env
                  \<lparr>C = 1 / 3, kernel = ''linear'', gamma = 10, K = None, alpha = None\<rparr>
                  unit3 [- 3, - 2, - 1]))
          unit3) = Inr [0, 1, 2]"
  by code_simp

text \<open>
  C3, amended. On a fitted classifier whose coefficient vectors have the length of the
  similarity vectors, \<open>predict\<close> returns, for every sample in order, the lowest position
  \<open>i\<close> in the coefficient array whose dot product with the sample's similarity vector is
  maximal: every position scores at most as much, every earlier position strictly less.
  The position itself is returned; nothing maps it back to a training label.
\<close>

theorem classifier_predict_first_argmax_index:
  fixes self :: "('x, vec list, 'n) estimator_scheme"
  assumes "K self = Some k" and "alpha self = Some A" and "A \<noteq> []"
      and "\<forall>x\<in>set X. \<forall>a\<in>set A. length a = length (similarity k x)"
  shows "\<exists>preds. fst (KernelRidgeClassifier_predict self X) = Inr preds \<and>
           length preds = length X \<and>
           (\<forall>n<length X. \<exists>i<length A. preds ! n = int i \<and>
              (\<forall>j<length A. inner (A ! j) (similarity k (X ! n))
                               \<le> inner (A ! i) (similarity k (X ! n))) \<and>
              (\<forall>j<i. inner (A ! j) (similarity k (X ! n))
                        < inner (A ! i) (similarity k (X ! n))))"
proof -
  from classifier_loop_total [OF assms] obtain preds where
    run: "classifier_loop self X [] = Inr preds"
    by blast
  from classifier_loop_Inr [OF assms(2) run] obtain k' :: "'x Kernel" and new where
    k': "X \<noteq> [] \<longrightarrow> K self = Some k'"
    and new: "preds = [] @ new"
    and alln: "list_all2 (\<lambda>x p. \<exists>i. np_argmax (map (\<lambda>a. inner a (similarity k' x)) A) = Inr i
                               \<and> p = int i) X new"
    by blast
  from new alln
  have all': "list_all2 (\<lambda>x p. \<exists>i. np_argmax (map (\<lambda>a. inner a (similarity k' x)) A) = Inr i
                               \<and> p = int i) X preds"
    by simp
  have all: "list_all2 (\<lambda>x p. \<exists>i. np_argmax (map (\<lambda>a. inner a (similarity k x)) A) = Inr i
                               \<and> p = int i) X preds"
  proof (cases "X = []")
    case True
    with all' show ?thesis by simp
  next
    case False
    with k' assms(1) have "k' = k" by simp
    with all' show ?thesis by simp
  qed
  have len: "length preds = length X"
    using all by (simp add: list_all2_lengthD)
  have each: "\<exists>i<length A. preds ! n = int i \<and>
              (\<forall>j<length A. inner (A ! j) (similarity k (X ! n))
                               \<le> inner (A ! i) (similarity k (X ! n))) \<and>
              (\<forall>j<i. inner (A ! j) (similarity k (X ! n))
                        < inner (A ! i) (similarity k (X ! n)))"
    if n: "n < length X" for n
  proof -
    from list_all2_nthD [OF all n] obtain i where
      i: "np_argmax (map (\<lambda>a. inner a (similarity k (X ! n))) A) = Inr i" "preds ! n = int i"
      by auto
    let ?sc = "map (\<lambda>a. inner a (similarity k (X ! n))) A"
    from np_argmax_first_max [OF i(1)] have
      b: "i < length ?sc"
      and m: "\<forall>j<length ?sc. ?sc ! j \<le> ?sc ! i"
      and f: "\<forall>j<i. ?sc ! j < ?sc ! i"
      by blast+
    from b have b': "i < length A" by simp
    have m': "inner (A ! j) (similarity k (X ! n)) \<le> inner (A ! i) (similarity k (X ! n))"
      if "j < length A" for j
    proof -
      from m that have "?sc ! j \<le> ?sc ! i" by simp
      with that b' show ?thesis by simp
    qed
    have f': "inner (A ! j) (similarity k (X ! n)) < inner (A ! i) (similarity k (X ! n))"
      if "j < i" for j
    proof -
      from that b' have j: "j < length A" by simp
      from f that have "?sc ! j < ?sc ! i" by simp
      with j b' show ?thesis by simp
    qed
    from b' m' f' i(2) show ?thesis
      by blast
  qed
  from run len each show ?thesis
    by (auto simp: KernelRidgeClassifier_predict_def)
qed

theorem classifier_predict_first_argmax_index_witness:
  "K sample_classifier = Some (linear_kernel unit3 10) \<and>
   alpha sample_classifier = Some sample_alpha \<and>
   sample_alpha \<noteq> [] \<and>
   list_all (\<lambda>x. list_all (\<lambda>a. length a = length (similarity (linear_kernel unit3 10) x))
                     sample_alpha) [[0, 1, 0], [1, 0, 0]] \<and>
   fst (KernelRidgeClassifier_predict sample_classifier [[0, 1, 0], [1, 0, 0]]) = Inr [1, 0] \<and>
   (\<exists>preds. fst (KernelRidgeClassifier_predict sample_classifier [[0, 1, 0], [1, 0, 0]])
              = Inr preds \<and>
      length preds = length [[0, 1, 0], [1, 0, 0 :: real]] \<and>
      (\<forall>n<length [[0, 1, 0], [1, 0, 0 :: real]]. \<exists>i<length sample_alpha. preds ! n = int i \<and>
         (\<forall>j<length sample_alpha.
            inner (sample_alpha ! j) (similarity (linear_kernel unit3 10) ([[0, 1, 0], [1, 0, 0]] ! n))
              \<le> inner (sample_alpha ! i)
                   (similarity (linear_kernel unit3 10) ([[0, 1, 0], [1, 0, 0]] ! n))) \<and>
         (\<forall>j<i.
            inner (sample_alpha ! j) (similarity (linear_kernel unit3 10) ([[0, 1, 0], [1, 0, 0]] ! n))
              < inner (sample_alpha ! i)
                  (similarity (linear_kernel unit3 10) ([[0, 1, 0], [1, 0, 0]] ! n)))))"
proof -
  have h1: "K sample_classifier = Some (linear_kernel unit3 10)"
    by (simp add: sample_classifier_def)
  have h2: "alpha sample_classifier = Some sample_alpha"
    by (simp add: sample_classifier_def)
  have h3: "sample_alpha \<noteq> []"
    by (simp add: sample_alpha_def)
  have h4: "\<forall>x\<in>set [[0, 1, 0], [1, 0, 0]]. \<forall>a\<in>set sample_alpha.
      length a = length (similarity (linear_kernel unit3 10) x)"
    by (simp add: sample_alpha_def linear_kernel_def unit3_def)
  from classifier_predict_first_argmax_index [OF h1 h2 h3 h4]
       h1 h2 h3 h4 sample_classifier_predict
  show ?thesis
    unfolding list_all_iff by blast
qed

subsection \<open>Classifier fit\<close>

lemma one_vs_all_loop_all_solved:
  "\<forall>c\<in>set cs. column Y c = Inr (t c) \<and> slv Kreg (map real_of_int (t c)) = Inr (a c)
     \<Longrightarrow> one_vs_all_loop slv Kreg Y cs acc = (None, acc @ map a cs)"
  by (induction cs arbitrary: acc) simp_all

lemma LabelBinarizer_multiclass:
  assumes "3 \<le> length (sort (remdups y))"
  shows "LabelBinarizer_fit_transform y
           = Inr (map (\<lambda>l. map (\<lambda>c. if l = c then 1 else - 1) (sort (remdups y))) y)"
proof -
  from assms have "y \<noteq> []" by auto
  with assms show ?thesis
    by (simp add: LabelBinarizer_fit_transform_def Let_def)
qed

lemma ncols_binarized:
  assumes "y \<noteq> []"
  shows "ncols (map (\<lambda>l. map (f l) classes) y) = length classes"
  using assms by (cases y) (simp_all add: ncols_def)

lemma column_zero_based:
  assumes "y \<noteq> []" and "c < k"
  shows "column (map (\<lambda>l. map (\<lambda>c. if l = c then 1 else - 1) (map int [0..<k])) y) (int c)
           = Inr (map (\<lambda>l. if l = int c then 1 else - 1) y)"
  using assms by (simp add: column_def ncols_binarized Let_def)

lemma one_vs_all_of_int:
  "map real_of_int (map (\<lambda>l. if l = c then 1 else - 1) y) = one_vs_all y c"
  by (simp add: one_vs_all_def)

lemma sample_solves:
  "solve sample_env (regularize (similarity_matrix (linear_kernel unit3 10)) (1 / 3) (length unit3))
     (one_vs_all [0, 1, 2] (int c)) = Inr (sample_alpha ! c)"
  if "c < 3"
proof -
  from that have "c = 0 \<or> c = 1 \<or> c = 2" by auto
  moreover have "solve sample_env
      (regularize (similarity_matrix (linear_kernel unit3 10)) (1 / 3) (length unit3))
      (one_vs_all [0, 1, 2] (int 0)) = Inr (sample_alpha ! 0)"
    by code_simp
  moreover have "solve sample_env
      (regularize (similarity_matrix (linear_kernel unit3 10)) (1 / 3) (length unit3))
      (one_vs_all [0, 1, 2] (int 1)) = Inr (sample_alpha ! 1)"
    by code_simp
  moreover have "solve sample_env
      (regularize (similarity_matrix (linear_kernel unit3 10)) (1 / 3) (length unit3))
      (one_vs_all [0, 1, 2] (int 2)) = Inr (sample_alpha ! 2)"
    by code_simp
  ultimately show ?thesis by blast
qed

lemma LabelBinarizer_binary:
  assumes "sort (remdups y) = [0, 1]"
  shows "LabelBinarizer_fit_transform y = Inr (map (\<lambda>l. [if l = 1 then 1 else - 1]) y)"
proof -
  from assms have "y \<noteq> []" by auto
  with assms show ?thesis
    by (simp add: LabelBinarizer_fit_transform_def Let_def)
qed

lemma column_binary:
  assumes "y \<noteq> []"
  shows "column (map (\<lambda>l. [if l = 1 then 1 else - 1]) y) 0
           = Inr (map (\<lambda>l. if l = 1 then 1 else - 1) y)"
    and "column (map (\<lambda>l. [if l = 1 then 1 else - 1]) y) 1 = Inl IndexError"
  using assms by (cases y; simp add: column_def ncols_def Let_def)+

text \<open>
  Against C4 as stated: trained on the labels \<open>1, 2, 3\<close>, \<open>fit\<close> selects columns 1 and 2
  of the binarized labels (the targets of the classes 2 and 3), solves for those, and
  raises \<open>IndexError\<close> on column 3; two coefficient vectors are stored for three classes,
  the first of them computed from the target of the second class.
\<close>

theorem classifier_fit_label_indexing_counterexample:
  "fst (KernelRidgeClassifier_fit sample_env
          \<lparr>C = 1 / 3, kernel = ''linear'', gamma = 10, K = None, alpha = None\<rparr>
          unit3 [1, 2, 3]) = Some IndexError \<and>
   alpha (snd (KernelRidgeClassifier_fit sample_env
          \<lparr>C = 1 / 3, kernel = ''linear'', gamma = 10, K = None, alpha = None\<rparr>
          unit3 [1, 2, 3]))
     = Some [[- (1 / 2), 1 / 2, - (1 / 2)], [- (1 / 2), - (1 / 2), 1 / 2]]"
  by code_simp

text \<open>
  C4, amended. For a training set whose distinct labels are exactly \<open>0, ..., k - 1\<close> with
  \<open>k \<ge> 3\<close>, and a registered kernel, \<open>fit\<close> calls \<open>solve\<close> once per label \<open>c\<close> on the
  regularized matrix and the one-vs-all target of \<open>c\<close> (\<open>1\<close> where the sample's label is
  \<open>c\<close>, \<open>-1\<close> elsewhere); when every solve returns, \<open>fit\<close> returns and the stored
  coefficient array holds the solution for label \<open>i\<close> at index \<open>i\<close>.
\<close>

theorem classifier_fit_one_vs_all:
  assumes cls: "sort (remdups y) = map int [0..<k]" and k3: "3 \<le> k"
      and reg: "kernels env (kernel self) = Some mk"
      and slv: "\<forall>c<k. solve env
                  (regularize (similarity_matrix (mk X (gamma self))) (C self) (length X))
                  (one_vs_all y (int c)) = Inr (a c)"
  shows "KernelRidgeClassifier_fit env self X y
           = (None, self\<lparr>K := Some (mk X (gamma self)), alpha := Some (map a [0..<k])\<rparr>)"
proof -
  let ?Kreg = "regularize (similarity_matrix (mk X (gamma self))) (C self) (length X)"
  let ?Y = "map (\<lambda>l. map (\<lambda>c. if l = c then 1 else - 1) (map int [0..<k])) y"
  from cls k3 have len: "3 \<le> length (sort (remdups y))" by simp
  then have ne: "y \<noteq> []" by auto
  have Y: "LabelBinarizer_fit_transform y = Inr ?Y"
    using LabelBinarizer_multiclass [OF len] cls by simp
  have each: "\<forall>c\<in>set (map int [0..<k]).
      column ?Y c = Inr (map (\<lambda>l. if l = c then 1 else - 1) y) \<and>
      solve env ?Kreg (map real_of_int (map (\<lambda>l. if l = c then 1 else - 1) y))
        = Inr (a (nat c))"
  proof
    fix c assume "c \<in> set (map int [0..<k])"
    then obtain n where n: "c = int n" "n < k" by auto
    from slv n(2) have "solve env ?Kreg (one_vs_all y (int n)) = Inr (a n)"
      by simp
    then have sv: "solve env ?Kreg (map real_of_int (map (\<lambda>l. if l = int n then 1 else - 1) y))
        = Inr (a n)"
      by (simp only: one_vs_all_of_int)
    have col: "column ?Y (int n) = Inr (map (\<lambda>l. if l = int n then 1 else - 1) y)"
      by (rule column_zero_based [OF ne n(2)])
    have "nat (int n) = n" by simp
    with sv col show "column ?Y c = Inr (map (\<lambda>l. if l = c then 1 else - 1) y) \<and>
      solve env ?Kreg (map real_of_int (map (\<lambda>l. if l = c then 1 else - 1) y))
        = Inr (a (nat c))"
      unfolding n(1) by (simp only: simp_thms)
  qed
  have loop: "one_vs_all_loop (solve env) ?Kreg ?Y (map int [0..<k]) []
      = (None, map a [0..<k])"
    using one_vs_all_loop_all_solved
            [of "map int [0..<k]" ?Y "\<lambda>c. map (\<lambda>l. if l = c then 1 else - 1) y"
                "solve env" ?Kreg "\<lambda>c. a (nat c)" "[]", OF each]
    by (simp add: comp_def)
  show ?thesis
    using Y reg loop cls by (simp add: KernelRidgeClassifier_fit_def Let_def)
qed

theorem classifier_fit_one_vs_all_witness:
  "sort (remdups [0, 1, 2 :: int]) = map int [0..<3] \<and>
   (3 :: nat) \<le> 3 \<and>
   kernels sample_env ''linear'' = Some linear_kernel \<and>
   KernelRidgeClassifier_fit sample_env
       \<lparr>C = 1 / 3, kernel = ''linear'', gamma = 10, K = None, alpha = None\<rparr> unit3 [0, 1, 2]
     = (None, sample_classifier)"
proof -
  let ?self = "\<lparr>C = 1 / 3, kernel = ''linear'', gamma = 10, K = None, alpha = None\<rparr>
                 :: (real list, vec list) estimator"
  have h1: "sort (remdups [0, 1, 2 :: int]) = map int [0..<3]"
    by code_simp
  have h2: "(3 :: nat) \<le> 3" by simp
  have h3: "kernels sample_env (kernel ?self) = Some linear_kernel"
    by (simp add: sample_env_def sample_kernels_def)
  have h4: "\<forall>c<3. solve sample_env
      (regularize (similarity_matrix (linear_kernel unit3 (gamma ?self))) (C ?self) (length unit3))
      (one_vs_all [0, 1, 2] (int c)) = Inr (sample_alpha ! c)"
    using sample_solves by simp
  have m: "map ((!) sample_alpha) [0..<3] = sample_alpha"
    by code_simp
  have h3': "kernels sample_env ''linear'' = Some linear_kernel"
    using h3 by simp
  from classifier_fit_one_vs_all [OF h1 h2 h3 h4]
  have "KernelRidgeClassifier_fit sample_env ?self unit3 [0, 1, 2] = (None, sample_classifier)"
    by (simp add: m sample_classifier_def)
  with h1 h2 h3' show ?thesis
    by (intro conjI)
qed

text \<open>
  C5. For a training set with exactly two classes, labelled \<open>0\<close> and \<open>1\<close>, the claim is
  that \<open>fit\<close> succeeds with two coefficient vectors. The code does not: label
  binarization yields a single column for two classes, the first pass of the loop solves
  against it (the target of class \<open>1\<close>), and the second pass selects column \<open>1\<close>, which
  does not exist. So \<open>fit\<close> always raises: \<open>KeyError\<close> for an unregistered kernel, the
  error of the first solve if that fails, and \<open>IndexError\<close> otherwise.
\<close>

theorem binary_classifier_fit_raises:
  assumes "sort (remdups y) = [0, 1]"
  shows "fst (KernelRidgeClassifier_fit env self X y) \<noteq> None \<and>
         fst (KernelRidgeClassifier_fit env self X y)
           = (case kernels env (kernel self) of
                None \<Rightarrow> Some (KeyError (kernel self))
              | Some mk \<Rightarrow>
                  (case solve env
                          (regularize (similarity_matrix (mk X (gamma self))) (C self) (length X))
                          (one_vs_all y 1) of
                     Inl e \<Rightarrow> Some e
                   | Inr a \<Rightarrow> Some IndexError))"
proof -
  from assms have ne: "y \<noteq> []" by auto
  have eq: "fst (KernelRidgeClassifier_fit env self X y)
           = (case kernels env (kernel self) of
                None \<Rightarrow> Some (KeyError (kernel self))
              | Some mk \<Rightarrow>
                  (case solve env
                          (regularize (similarity_matrix (mk X (gamma self))) (C self) (length X))
                          (one_vs_all y 1) of
                     Inl e \<Rightarrow> Some e
                   | Inr a \<Rightarrow> Some IndexError))"
  proof (cases "kernels env (kernel self)")
    case None
    with LabelBinarizer_binary [OF assms] show ?thesis
      by (simp add: KernelRidgeClassifier_fit_def)
  next
    case (Some mk)
    let ?Kreg = "regularize (similarity_matrix (mk X (gamma self))) (C self) (length X)"
    let ?Y = "map (\<lambda>l. [if l = 1 then 1 else - 1]) y"
    have loop: "fst (one_vs_all_loop (solve env) ?Kreg ?Y [0, 1] [])
        = (case solve env ?Kreg (one_vs_all y 1) of Inl e \<Rightarrow> Some e | Inr a \<Rightarrow> Some IndexError)"
      by (simp add: column_binary [OF ne] one_vs_all_of_int del: map_map split: sum.splits)
    from Some LabelBinarizer_binary [OF assms] assms loop show ?thesis
      by (simp add: KernelRidgeClassifier_fit_def Let_def)
  qed
  then show ?thesis
    by (simp split: option.splits sum.splits)
qed

theorem binary_classifier_fit_raises_witness:
  "sort (remdups [0, 0, 1, 1 :: int]) = [0, 1] \<and>
   fst (KernelRidgeClassifier_fit sample_env
          \<lparr>C = 1 / 4, kernel = ''linear'', gamma = 10, K = None, alpha = None\<rparr>
          unit4 [0, 0, 1, 1]) = Some IndexError"
proof -
  let ?self = "\<lparr>C = 1 / 4, kernel = ''linear'', gamma = 10, K = None, alpha = None\<rparr>
                 :: (real list, vec list) estimator"
  have h: "sort (remdups [0, 0, 1, 1 :: int]) = [0, 1]"
    by code_simp
  have k: "kernels sample_env ''linear'' = Some linear_kernel"
    by (simp add: sample_env_def sample_kernels_def)
  have s: "solve sample_env
      (regularize (similarity_matrix (linear_kernel unit4 10)) (1 / 4) (length unit4))
      (one_vs_all [0, 0, 1, 1] 1) = Inr [- (1 / 2), - (1 / 2), 1 / 2, 1 / 2]"
    by code_simp
  from binary_classifier_fit_raises [OF h, of sample_env ?self unit4] h show ?thesis
    by (simp add: k s)
qed

subsection \<open>Augmented classifier\<close>

text \<open>
  C7. \<open>fit\<close> of the augmented classifier is \<open>fit\<close> of the plain classifier on the
  features extracted from the augmented samples, with the augmented labels: augmentation
  comes first, feature extraction second. \<open>predict\<close> is \<open>predict\<close> of the plain classifier
  on the features extracted, by the same extractor, from the samples as given, and its
  result does not depend on what \<open>augment_dataset\<close> is.
\<close>

theorem augmentation_only_in_fit:
  "AugmentedHogsKernelRidgeClassifier_fit env self X y
     = (let Xy = augment_dataset env X y (flip_ratio self) (rot_replicas self)
                   (rot_ratio self) (rot_angle self)
        in KernelRidgeClassifier_fit env self (hog_extractor self (fst Xy)) (snd Xy)) \<and>
   AugmentedHogsKernelRidgeClassifier_predict env self X'
     = KernelRidgeClassifier_predict self (hog_extractor self X') \<and>
   AugmentedHogsKernelRidgeClassifier_predict (env\<lparr>augment_dataset := g\<rparr>) self X'
     = AugmentedHogsKernelRidgeClassifier_predict env self X'"
  by (simp add: AugmentedHogsKernelRidgeClassifier_fit_def KernelRidgeClassifier_fit_def
      AugmentedHogsKernelRidgeClassifier_predict_def KernelRidgeClassifier_predict_def Let_def)

end
